theory Spec2Isabelle
  imports Main "HOL-Library.Word"
begin

unbundle bit_operations_syntax

section \<open>JavaScript values, exceptions and buffers\<close>

text \<open>
  The functions verified here are the members of \<open>Utils\<close> that resolve address and
  network identities and verify signed messages. A JavaScript string is modelled as a
  \<open>string\<close> whose characters are the code units \<open>0..255\<close> (Latin-1); a \<open>Buffer\<close> is a
  list of bytes. A thrown exception is the left injection of a sum, so every
  \<open>throw\<close>, \<open>try\<close> and \<open>catch\<close> of the source is a branch of the model. The calls to
  \<open>logger.error\<close> only write a diagnostic line and are left out.
\<close>

type_synonym byte = "8 word"

datatype exn =
    PreconditionFailed    \<comment> \<open>thrown by \<open>$.checkArgument\<close> of the preconditions package\<close>
  | TypeError             \<comment> \<open>thrown by the JavaScript runtime\<close>
  | LibraryError          \<comment> \<open>thrown by secp256k1 or by an address library\<close>

text \<open>\<open>try { body } catch (e) { handler }\<close>\<close>

fun try_catch :: "exn + 'a \<Rightarrow> (exn \<Rightarrow> exn + 'a) \<Rightarrow> exn + 'a" where
  "try_catch (Inr v) handler = Inr v"
| "try_catch (Inl e) handler = handler e"

text \<open>
  The message argument of \<open>hashMessage\<close> and \<open>verifyMessage\<close>: a string, an array of
  strings, or \<open>null\<close>/\<open>undefined\<close>.
\<close>

datatype js_text = Str string | StrArray "string list" | Nullish

text \<open>
  The signature and public-key arguments: a \<open>Buffer\<close>, a string, or a value that is
  neither (\<open>undefined\<close>, \<open>null\<close>, a number), on which \<open>Buffer.from(v, 'hex')\<close> throws.
\<close>

datatype js_bytes = Buffer "byte list" | HexString string | NotBytes

text \<open>JavaScript truthiness of a message: the empty string and \<open>null\<close> are falsy, every array is truthy.\<close>

fun truthy :: "js_text \<Rightarrow> bool" where
  "truthy (Str s) = (s \<noteq> [])"
| "truthy (StrArray xs) = True"
| "truthy Nullish = False"

text \<open>\<open>$.checkArgument(v)\<close>\<close>

definition checkArgument :: "js_text \<Rightarrow> exn + unit" where
  "checkArgument v = (if truthy v then Inr () else Inl PreconditionFailed)"

subsection \<open>Buffer.from\<close>

definition code_unit :: "char \<Rightarrow> nat" where
  "code_unit c = of_char c"

text \<open>\<open>Buffer.from(s)\<close> on a string: its UTF-8 encoding.\<close>

definition utf8_char :: "char \<Rightarrow> byte list" where
  "utf8_char c =
     (if code_unit c < 128 then [of_nat (code_unit c)]
      else [of_nat (192 + code_unit c div 64), of_nat (128 + code_unit c mod 64)])"

definition utf8 :: "string \<Rightarrow> byte list" where
  "utf8 s = concat (map utf8_char s)"

definition is_digit :: "char \<Rightarrow> bool" where
  "is_digit c = (48 \<le> code_unit c \<and> code_unit c \<le> 57)"

text \<open>
  \<open>Buffer.from(array)\<close> stores one byte per element, the element converted by ToNumber
  and ToUint8. A string without a decimal digit converts to \<open>NaN\<close>, to an infinity or
  (when blank) to zero, and each of them is stored as the byte 0. The conversion of a
  string that holds a digit (a numeric literal) is the runtime's, taken as the
  parameter \<open>numeric\<close>.
\<close>

definition array_byte :: "(string \<Rightarrow> byte) \<Rightarrow> string \<Rightarrow> byte" where
  "array_byte numeric s = (if list_ex is_digit s then numeric s else 0)"

text \<open>
  \<open>Buffer.from(s, 'hex')\<close> on a string: two hexadecimal digits per byte, stopping
  without an exception at the first pair that is not hexadecimal; a last odd character
  is dropped.
\<close>

definition hex_digit :: "char \<Rightarrow> nat option" where
  "hex_digit c =
     (let n = code_unit c in
      if 48 \<le> n \<and> n \<le> 57 then Some (n - 48)
      else if 97 \<le> n \<and> n \<le> 102 then Some (n - 87)
      else if 65 \<le> n \<and> n \<le> 70 then Some (n - 55)
      else None)"

fun hex_decode :: "string \<Rightarrow> byte list" where
  "hex_decode (a # b # cs) =
     (case (hex_digit a, hex_digit b) of
        (Some h, Some l) \<Rightarrow> of_nat (16 * h + l) # hex_decode cs
      | _ \<Rightarrow> [])"
| "hex_decode _ = []"

definition buffer_from_hex :: "js_bytes \<Rightarrow> exn + byte list" where
  "buffer_from_hex v =
     (case v of
        Buffer b \<Rightarrow> Inr b
      | HexString s \<Rightarrow> Inr (hex_decode s)
      | NotBytes \<Rightarrow> Inl TypeError)"

section \<open>The external libraries\<close>

subsection \<open>Double SHA-256\<close>

text \<open>
  Modelled from the spec: \<open>crypto.Hash.sha256sha256\<close> of bitcore-lib is not among the
  source files; the spec says it "computes double SHA-256 (SHA-256 applied twice) over
  the bytes". SHA-256 is written out after FIPS 180-4, on 32-bit words held as natural
  numbers with the wrap-around explicit.
\<close>

definition round_constants :: "nat list" where
  "round_constants =
    [1116352408, 1899447441, 3049323471, 3921009573, 961987163, 1508970993,
     2453635748, 2870763221, 3624381080, 310598401, 607225278, 1426881987,
     1925078388, 2162078206, 2614888103, 3248222580, 3835390401, 4022224774,
     264347078, 604807628, 770255983, 1249150122, 1555081692, 1996064986,
     2554220882, 2821834349, 2952996808, 3210313671, 3336571891, 3584528711,
     113926993, 338241895, 666307205, 773529912, 1294757372, 1396182291,
     1695183700, 1986661051, 2177026350, 2456956037, 2730485921, 2820302411,
     3259730800, 3345764771, 3516065817, 3600352804, 4094571909, 275423344,
     430227734, 506948616, 659060556, 883997877, 958139571, 1322822218,
     1537002063, 1747873779, 1955562222, 2024104815, 2227730452, 2361852424,
     2428436474, 2756734187, 3204031479, 3329325298]"

definition initial_state :: "nat list" where
  "initial_state =
    [1779033703, 3144134277, 1013904242, 2773480762,
     1359893119, 2600822924, 528734635, 1541459225]"

definition add32 :: "nat \<Rightarrow> nat \<Rightarrow> nat" where
  "add32 x y = (x + y) mod 4294967296"

definition rotr :: "nat \<Rightarrow> nat \<Rightarrow> nat" where
  "rotr n x = x div 2 ^ n + (x mod 2 ^ n) * 2 ^ (32 - n)"

definition shr :: "nat \<Rightarrow> nat \<Rightarrow> nat" where
  "shr n x = x div 2 ^ n"

definition big_sigma0 :: "nat \<Rightarrow> nat" where
  "big_sigma0 x = rotr 2 x XOR rotr 13 x XOR rotr 22 x"

definition big_sigma1 :: "nat \<Rightarrow> nat" where
  "big_sigma1 x = rotr 6 x XOR rotr 11 x XOR rotr 25 x"

definition small_sigma0 :: "nat \<Rightarrow> nat" where
  "small_sigma0 x = rotr 7 x XOR rotr 18 x XOR shr 3 x"

definition small_sigma1 :: "nat \<Rightarrow> nat" where
  "small_sigma1 x = rotr 17 x XOR rotr 19 x XOR shr 10 x"

definition sha_ch :: "nat \<Rightarrow> nat \<Rightarrow> nat \<Rightarrow> nat" where
  "sha_ch x y z = (x AND y) XOR ((4294967295 - x) AND z)"

definition sha_maj :: "nat \<Rightarrow> nat \<Rightarrow> nat \<Rightarrow> nat" where
  "sha_maj x y z = (x AND y) XOR (x AND z) XOR (y AND z)"

text \<open>The message schedule, newest word first: \<open>ws = [W(t-1), W(t-2), ...]\<close>.\<close>

fun schedule :: "nat \<Rightarrow> nat list \<Rightarrow> nat list" where
  "schedule 0 ws = ws"
| "schedule (Suc n) ws =
     schedule n
       (add32 (add32 (add32 (small_sigma1 (ws ! 1)) (ws ! 6)) (small_sigma0 (ws ! 14))) (ws ! 15)
        # ws)"

fun sha_round :: "nat list \<Rightarrow> nat \<times> nat \<Rightarrow> nat list" where
  "sha_round [a, b, c, d, e, f, g, h] (k, w) =
     (let t1 = add32 (add32 (add32 (add32 h (big_sigma1 e)) (sha_ch e f g)) k) w;
          t2 = add32 (big_sigma0 a) (sha_maj a b c)
      in [add32 t1 t2, a, b, c, add32 d t1, e, f, g])"
| "sha_round st kw = st"

fun words_of :: "byte list \<Rightarrow> nat list" where
  "words_of (a # b # c # d # bs) =
     (((unat a * 256 + unat b) * 256 + unat c) * 256 + unat d) # words_of bs"
| "words_of bs = []"

definition compress :: "nat list \<Rightarrow> byte list \<Rightarrow> nat list" where
  "compress st blk =
     (let ws = rev (schedule 48 (rev (words_of blk)))
      in map2 add32 st (foldl sha_round st (zip round_constants ws)))"

fun blocks :: "nat list \<Rightarrow> byte list \<Rightarrow> nat list" where
  "blocks st [] = st"
| "blocks st (b # bs) = blocks (compress st (take 64 (b # bs))) (drop 64 (b # bs))"

fun be_bytes :: "nat \<Rightarrow> nat \<Rightarrow> byte list" where
  "be_bytes 0 v = []"
| "be_bytes (Suc k) v = be_bytes k (v div 256) @ [of_nat (v mod 256)]"

definition pad :: "byte list \<Rightarrow> byte list" where
  "pad m =
     m @ [128] @ replicate ((119 - length m mod 64) mod 64) 0 @ be_bytes 8 (8 * length m)"

definition sha256 :: "byte list \<Rightarrow> byte list" where
  "sha256 m = concat (map (be_bytes 4) (blocks initial_state (pad m)))"

definition sha256sha256 :: "byte list \<Rightarrow> byte list" where
  "sha256sha256 buf = sha256 (sha256 buf)"

subsection \<open>BufferReader\<close>

text \<open>
  Modelled from the spec: \<open>BufferReader.readReverse\<close> of bitcore-lib is not among the
  source files; the spec says "the resulting digest's byte order is reversed before
  return".
\<close>

definition readReverse :: "byte list \<Rightarrow> byte list" where
  "readReverse buf = rev buf"

subsection \<open>The runtime and secp256k1\<close>

text \<open>
  What the message functions take from outside the repository: the runtime's
  conversion of a numeric string to a byte, and the two functions of the secp256k1
  package, each of which returns or throws.
\<close>

record platform =
  toUint8 :: "string \<Rightarrow> byte"
  signatureImport :: "byte list \<Rightarrow> exn + byte list"
  ecdsaVerify :: "byte list \<Rightarrow> byte list \<Rightarrow> byte list \<Rightarrow> exn + bool"

section \<open>Message hashing and verification\<close>

text \<open>\<open>Buffer.from(text)\<close>\<close>

definition buffer_from :: "platform \<Rightarrow> js_text \<Rightarrow> exn + byte list" where
  "buffer_from P text =
     (case text of
        Str s \<Rightarrow> Inr (utf8 s)
      | StrArray xs \<Rightarrow> Inr (map (array_byte (toUint8 P)) xs)
      | Nullish \<Rightarrow> Inl TypeError)"

text \<open>
  \<open>hashMessage(text, noReverse)\<close>; an omitted \<open>noReverse\<close> is \<open>undefined\<close>, modelled
  as \<open>False\<close>.
\<close>

definition hashMessage :: "platform \<Rightarrow> js_text \<Rightarrow> bool \<Rightarrow> exn + byte list" where
  "hashMessage P text noReverse =
     (case checkArgument text of
        Inl e \<Rightarrow> Inl e
      | Inr _ \<Rightarrow>
          (case buffer_from P text of
             Inl e \<Rightarrow> Inl e
           | Inr buf \<Rightarrow>
               (let ret = sha256sha256 buf
                in Inr (if \<not> noReverse then readReverse ret else ret))))"

text \<open>
  The three helpers return the imported value, or \<open>false\<close> from the \<open>catch\<close> block;
  \<open>false\<close> is \<open>None\<close> here (a \<open>Buffer\<close> is never falsy).
\<close>

definition tryImportPublicKey :: "js_bytes \<Rightarrow> exn + byte list option" where
  "tryImportPublicKey publicKey =
     try_catch (map_sum id Some (buffer_from_hex publicKey)) (\<lambda>e. Inr None)"

definition import_signature :: "platform \<Rightarrow> js_bytes \<Rightarrow> exn + byte list" where
  "import_signature P signature =
     (case buffer_from_hex signature of
        Inl e \<Rightarrow> Inl e
      | Inr signatureBuffer \<Rightarrow> signatureImport P signatureBuffer)"

definition tryImportSignature :: "platform \<Rightarrow> js_bytes \<Rightarrow> exn + byte list option" where
  "tryImportSignature P signature =
     try_catch (map_sum id Some (import_signature P signature)) (\<lambda>e. Inr None)"

definition tryVerifyMessage ::
  "platform \<Rightarrow> byte list \<Rightarrow> byte list \<Rightarrow> byte list \<Rightarrow> exn + bool" where
  "tryVerifyMessage P hash sig publicKeyBuffer =
     try_catch (ecdsaVerify P sig hash publicKeyBuffer) (\<lambda>e. Inr False)"

text \<open>\<open>Array.isArray(message) ? message.join('') : message\<close>\<close>

fun flatten :: "js_text \<Rightarrow> js_text" where
  "flatten (StrArray xs) = Str (concat xs)"
| "flatten message = message"

definition verifyMessage :: "platform \<Rightarrow> js_text \<Rightarrow> js_bytes \<Rightarrow> js_bytes \<Rightarrow> exn + bool" where
  "verifyMessage P message signature publicKey =
     (case checkArgument message of
        Inl e \<Rightarrow> Inl e
      | Inr _ \<Rightarrow>
          (case hashMessage P (flatten message) True of
             Inl e \<Rightarrow> Inl e
           | Inr hash \<Rightarrow>
               (case tryImportSignature P signature of
                  Inl e \<Rightarrow> Inl e
                | Inr None \<Rightarrow> Inr False
                | Inr (Some sig) \<Rightarrow>
                    (case tryImportPublicKey publicKey of
                       Inl e \<Rightarrow> Inl e
                     | Inr None \<Rightarrow> Inr False
                     | Inr (Some publicKeyBuffer) \<Rightarrow>
                         tryVerifyMessage P hash sig publicKeyBuffer))))"

section \<open>Address identity\<close>

text \<open>
  The keys of \<open>Bitcore_\<close>: the four address libraries, in the order \<open>getAddressCoin\<close>
  tries them.
\<close>

datatype coin = BTC | BCH | DOGE | LTC

text \<open>
  What \<open>Address.toObject()\<close> returns: the properties \<open>hash\<close>, \<open>type\<close> and
  \<open>network\<close>.
\<close>

record address_object =
  obj_hash :: string
  obj_type :: string
  obj_network :: string

text \<open>
  The address libraries (bitcore-lib and its three forks) are not among the source
  files and the spec does not give their grammars, so they are a parameter: for each
  coin the \<open>Address\<close> constructor on a string, \<open>toObject\<close>, \<open>Address.fromObject\<close> and
  \<open>toString\<close>, and \<open>toLegacyAddress\<close> of the bitcore-lib-cash address. \<open>'a\<close> is the
  type of \<open>Address\<close> instances.
\<close>

record 'a bitcore =
  new_Address :: "coin \<Rightarrow> string \<Rightarrow> exn + 'a"
  toObject :: "coin \<Rightarrow> 'a \<Rightarrow> address_object"
  fromObject :: "coin \<Rightarrow> address_object \<Rightarrow> exn + 'a"
  toString :: "coin \<Rightarrow> 'a \<Rightarrow> string"
  toLegacyAddress :: "'a \<Rightarrow> string"

text \<open>\<open>new Bitcore_[c].Address(address); return c;\<close>\<close>

definition construct_and_return :: "'a bitcore \<Rightarrow> coin \<Rightarrow> string \<Rightarrow> exn + coin option" where
  "construct_and_return L c address =
     (case new_Address L c address of Inl e \<Rightarrow> Inl e | Inr a \<Rightarrow> Inr (Some c))"

text \<open>\<open>getAddressCoin\<close>: four nested \<open>try\<close> blocks; the innermost \<open>catch\<close> returns \<open>undefined\<close>.\<close>

definition getAddressCoin :: "'a bitcore \<Rightarrow> string \<Rightarrow> exn + coin option" where
  "getAddressCoin L address =
     try_catch (construct_and_return L BTC address) (\<lambda>e.
       try_catch (construct_and_return L BCH address) (\<lambda>e.
         try_catch (construct_and_return L DOGE address) (\<lambda>e.
           try_catch (construct_and_return L LTC address) (\<lambda>e.
             Inr None))))"

text \<open>
  \<open>translateAddress\<close>. With \<open>origCoin\<close> undefined, \<open>Bitcore_[origCoin]\<close> is undefined and
  reading its \<open>Address\<close> property throws a \<open>TypeError\<close>; nothing catches it.
\<close>

definition translateAddress :: "'a bitcore \<Rightarrow> string \<Rightarrow> coin \<Rightarrow> exn + string" where
  "translateAddress L address coin =
     (case getAddressCoin L address of
        Inl e \<Rightarrow> Inl e
      | Inr None \<Rightarrow> Inl TypeError
      | Inr (Some origCoin) \<Rightarrow>
          (case new_Address L origCoin address of
             Inl e \<Rightarrow> Inl e
           | Inr origAddress \<Rightarrow>
               (let origObj = toObject L origCoin origAddress in
                case fromObject L coin origObj of
                  Inl e \<Rightarrow> Inl e
                | Inr result \<Rightarrow>
                    Inr (if coin = BCH then toLegacyAddress L result
                         else toString L coin result))))"

section \<open>Network names\<close>

text \<open>
  \<open>getNetworkName\<close> indexes \<open>Constants.NETWORK_ALIASES\<close> and then the object found
  there with strings the caller supplies. Such a read finds own properties and
  inherited ones (\<open>constructor\<close> on every plain object), so its result need not be a
  string, and \<open>compareNetworks\<close> compares the results with \<open>==\<close>. The values are
  therefore JavaScript values: a string, \<open>null\<close>, \<open>undefined\<close>, or any other value
  (a number, an object, a function), of a type \<open>'o\<close> the runtime chooses.
\<close>

datatype 'o js_value = JString string | JNull | JUndefined | JOther 'o

text \<open>
  What the network functions take from the runtime: the property read \<open>v[key]\<close>, which
  returns a value or throws; the truthiness of a value that is no string; and \<open>==\<close>
  where a side is no string, which returns or throws. \<open>Constants.NETWORK_ALIASES\<close>
  (not among the source files) is a value, and \<open>Config.allowRegtest\<close> a flag; both are
  parameters of the functions.
\<close>

record 'o runtime =
  get_property :: "'o js_value \<Rightarrow> string \<Rightarrow> exn + 'o js_value"
  truthy_other :: "'o \<Rightarrow> bool"
  loose_equals :: "'o js_value \<Rightarrow> 'o js_value \<Rightarrow> exn + bool"

fun js_truthy :: "'o runtime \<Rightarrow> 'o js_value \<Rightarrow> bool" where
  "js_truthy R (JString s) = (s \<noteq> [])"
| "js_truthy R JNull = False"
| "js_truthy R JUndefined = False"
| "js_truthy R (JOther v) = truthy_other R v"

text \<open>
  \<open>a == b\<close>: two strings are equal when they are the same string; \<open>null\<close> and
  \<open>undefined\<close> equal each other and nothing else; every other comparison is the
  runtime's.
\<close>

fun js_equals :: "'o runtime \<Rightarrow> 'o js_value \<Rightarrow> 'o js_value \<Rightarrow> exn + bool" where
  "js_equals R (JString a) (JString b) = Inr (a = b)"
| "js_equals R JNull JNull = Inr True"
| "js_equals R JNull JUndefined = Inr True"
| "js_equals R JUndefined JNull = Inr True"
| "js_equals R JUndefined JUndefined = Inr True"
| "js_equals R JNull b = Inr False"
| "js_equals R JUndefined b = Inr False"
| "js_equals R a JNull = Inr False"
| "js_equals R a JUndefined = Inr False"
| "js_equals R a b = loose_equals R a b"

definition lower_char :: "char \<Rightarrow> char" where
  "lower_char c =
     (let n = code_unit c in
      if (65 \<le> n \<and> n \<le> 90) \<or> (192 \<le> n \<and> n \<le> 222 \<and> n \<noteq> 215)
      then char_of (n + 32) else c)"

definition toLowerCase :: "string \<Rightarrow> string" where
  "toLowerCase s = map lower_char s"

text \<open>
  \<open>getNetworkName\<close>. The source reads \<open>aliases[network]\<close> once for the test and once
  for the result; the read is a function here, so both are the same value.
\<close>

definition getNetworkName ::
  "'o runtime \<Rightarrow> 'o js_value \<Rightarrow> string \<Rightarrow> string \<Rightarrow> exn + 'o js_value" where
  "getNetworkName R NETWORK_ALIASES chain network =
     (case get_property R NETWORK_ALIASES chain of
        Inl e \<Rightarrow> Inl e
      | Inr aliases \<Rightarrow>
          if js_truthy R aliases then
            (case get_property R aliases network of
               Inl e \<Rightarrow> Inl e
             | Inr name \<Rightarrow> if js_truthy R name then Inr name else Inr (JString network))
          else Inr (JString network))"

text \<open>
  \<open>getNetworkType\<close>. \<open>Array.prototype.includes\<close> and \<open>===\<close> find only the strings
  themselves, so every value that is not one of the three strings is \<open>testnet\<close>.
\<close>

definition getNetworkType :: "'o js_value \<Rightarrow> string" where
  "getNetworkType network =
     (if network \<in> {JString ''mainnet'', JString ''livenet''} then ''mainnet''
      else if network = JString ''regtest'' then ''regtest''
      else ''testnet'')"

text \<open>
  \<open>network ? Utils.getNetworkName(chain, network.toLowerCase()) : null\<close>; the argument
  is a string, or \<open>null\<close>/\<open>undefined\<close> (\<open>None\<close>).
\<close>

definition resolve ::
  "'o runtime \<Rightarrow> 'o js_value \<Rightarrow> string \<Rightarrow> string option \<Rightarrow> exn + 'o js_value" where
  "resolve R NETWORK_ALIASES chain network =
     (case network of
        None \<Rightarrow> Inr JNull
      | Some n \<Rightarrow>
          if n \<noteq> [] then getNetworkName R NETWORK_ALIASES chain (toLowerCase n)
          else Inr JNull)"

definition compareNetworks ::
  "bool \<Rightarrow> 'o runtime \<Rightarrow> 'o js_value \<Rightarrow> string option \<Rightarrow> string option \<Rightarrow> string
     \<Rightarrow> exn + bool" where
  "compareNetworks allowRegtest R NETWORK_ALIASES network1 network2 chain =
     (case resolve R NETWORK_ALIASES chain network1 of
        Inl e \<Rightarrow> Inl e
      | Inr n1 \<Rightarrow>
          (case resolve R NETWORK_ALIASES chain network2 of
             Inl e \<Rightarrow> Inl e
           | Inr n2 \<Rightarrow>
               (case js_equals R n1 n2 of
                  Inl e \<Rightarrow> Inl e
                | Inr same \<Rightarrow>
                    if same then Inr True
                    else if allowRegtest
                          \<and> getNetworkType n1 \<in> {''testnet'', ''regtest''}
                          \<and> getNetworkType n2 \<in> {''testnet'', ''regtest''} then Inr True
                    else Inr False)))"

section \<open>Notions the statements use\<close>

text \<open>A library accepts an address string when its \<open>Address\<close> constructor returns.\<close>

definition accepts :: "'a bitcore \<Rightarrow> string \<Rightarrow> coin \<Rightarrow> bool" where
  "accepts L address c = (case new_Address L c address of Inl e \<Rightarrow> False | Inr a \<Rightarrow> True)"

text \<open>The string \<open>translateAddress\<close> returns for the re-encoded address \<open>result\<close>.\<close>

definition rendered :: "'a bitcore \<Rightarrow> coin \<Rightarrow> 'a \<Rightarrow> string" where
  "rendered L c result = (if c = BCH then toLegacyAddress L result else toString L c result)"

text \<open>
  What the round trip needs of the address libraries: \<open>fromObject\<close> keeps the hash of
  the object; the library that re-encoded an address reads the string it rendered and
  finds the same hash; and two libraries that read the same string find the same hash.
\<close>

definition codec_laws :: "'a bitcore \<Rightarrow> bool" where
  "codec_laws L =
     ((\<forall>c obj a. fromObject L c obj = Inr a \<longrightarrow>
          obj_hash (toObject L c a) = obj_hash obj)
      \<and> (\<forall>c obj a. fromObject L c obj = Inr a \<longrightarrow>
            (\<exists>a'. new_Address L c (rendered L c a) = Inr a'
               \<and> obj_hash (toObject L c a') = obj_hash (toObject L c a)))
      \<and> (\<forall>c c' s a a'. new_Address L c s = Inr a \<longrightarrow> new_Address L c' s = Inr a' \<longrightarrow>
            obj_hash (toObject L c a) = obj_hash (toObject L c' a')))"

section \<open>Concrete instances of the external parts\<close>

text \<open>
  The theorems below hold for every runtime, signature library, address library and
  alias table. To evaluate the functions on concrete inputs, small instances stand in
  for the external parts. \<open>sample_platform\<close> takes every non-empty buffer for an
  importable signature, and its verification accepts, under a key of 33 or 65 bytes,
  the signature that equals the digest; its numeric conversion is never consulted on a
  string without a digit.
\<close>

definition sample_platform :: platform where
  "sample_platform =
     \<lparr> toUint8 = (\<lambda>s. 0),
       signatureImport = (\<lambda>b. if b = [] then Inl LibraryError else Inr b),
       ecdsaVerify = (\<lambda>sig hash key.
         if length key = 33 \<or> length key = 65 then Inr (sig = hash) else Inl LibraryError) \<rparr>"

text \<open>
  \<open>sample_bitcore\<close>: an address is a tag character followed by a non-empty hash. The
  tag \<open>1\<close> is read by the BTC library and, as the legacy form, by the BCH library;
  \<open>q\<close> is the BCH library's own form, \<open>D\<close> is DOGE's and \<open>L\<close> is LTC's.
\<close>

fun sample_tags :: "coin \<Rightarrow> string" where
  "sample_tags BTC = ''1''"
| "sample_tags BCH = ''q1''"
| "sample_tags DOGE = ''D''"
| "sample_tags LTC = ''L''"

definition sample_parse :: "coin \<Rightarrow> string \<Rightarrow> exn + address_object" where
  "sample_parse c s =
     (case s of
        [] \<Rightarrow> Inl LibraryError
      | t # h \<Rightarrow>
          if h \<noteq> [] \<and> t \<in> set (sample_tags c)
          then Inr \<lparr> obj_hash = h, obj_type = ''pubkeyhash'', obj_network = ''livenet'' \<rparr>
          else Inl LibraryError)"

definition sample_bitcore :: "address_object bitcore" where
  "sample_bitcore =
     \<lparr> new_Address = sample_parse,
       toObject = (\<lambda>c a. a),
       fromObject = (\<lambda>c obj. if obj_hash obj \<noteq> [] then Inr obj else Inl LibraryError),
       toString = (\<lambda>c a. hd (sample_tags c) # obj_hash a),
       toLegacyAddress = (\<lambda>a. CHR ''1'' # obj_hash a) \<rparr>"

text \<open>
  \<open>sample_runtime\<close>: a small part of the JavaScript object model, enough to read the
  sample table. A plain object has its own properties and inherits those of
  \<open>Object.prototype\<close>, among them \<open>constructor\<close> (the function \<open>Object\<close>). Of the
  function \<open>Object\<close> only \<open>length\<close> (1), \<open>name\<close>, \<open>prototype\<close>, \<open>caller\<close> and
  \<open>arguments\<close> are present, of another built-in function only \<open>name\<close>, of a string
  only \<open>length\<close>; what a full runtime adds to them is left out. Reading a property of
  \<open>null\<close> or \<open>undefined\<close> throws. A number equals the string of its decimal digits,
  an object equals the string that is its text, and objects are told apart by their
  properties.
\<close>

datatype sample_other =
    Number nat
  | PlainObject "(string \<times> sample_other js_value) list"
  | ObjectFunction
  | ObjectPrototype
  | Builtin string

definition prototype_names :: "string list" where
  "prototype_names =
     [''hasOwnProperty'', ''isPrototypeOf'', ''propertyIsEnumerable'', ''toLocaleString'',
      ''toString'', ''valueOf'', ''__defineGetter__'', ''__defineSetter__'',
      ''__lookupGetter__'', ''__lookupSetter__'']"

definition inherited :: "string \<Rightarrow> sample_other js_value" where
  "inherited key =
     (if key = ''constructor'' then JOther ObjectFunction
      else if key = ''__proto__'' then JOther ObjectPrototype
      else if key \<in> set prototype_names then JOther (Builtin key)
      else JUndefined)"

fun sample_get :: "sample_other js_value \<Rightarrow> string \<Rightarrow> exn + sample_other js_value" where
  "sample_get JNull key = Inl TypeError"
| "sample_get JUndefined key = Inl TypeError"
| "sample_get (JString s) key =
     Inr (if key = ''length'' then JOther (Number (length s)) else JUndefined)"
| "sample_get (JOther (Number n)) key = Inr JUndefined"
| "sample_get (JOther (PlainObject own)) key =
     Inr (case map_of own key of Some v \<Rightarrow> v | None \<Rightarrow> inherited key)"
| "sample_get (JOther ObjectFunction) key =
     (if key = ''length'' then Inr (JOther (Number 1))
      else if key = ''name'' then Inr (JString ''Object'')
      else if key = ''prototype'' then Inr (JOther ObjectPrototype)
      else if key = ''caller'' \<or> key = ''arguments'' then Inl TypeError
      else Inr JUndefined)"
| "sample_get (JOther ObjectPrototype) key =
     Inr (if key = ''__proto__'' then JNull else inherited key)"
| "sample_get (JOther (Builtin f)) key =
     Inr (if key = ''name'' then JString f else JUndefined)"

definition decimal :: "string \<Rightarrow> nat" where
  "decimal s = foldl (\<lambda>n c. 10 * n + (code_unit c - 48)) 0 s"

fun sample_text_equals :: "sample_other \<Rightarrow> string \<Rightarrow> bool" where
  "sample_text_equals (Number n) s = (list_all is_digit s \<and> decimal s = n)"
| "sample_text_equals (PlainObject own) s = (s = ''[object Object]'')"
| "sample_text_equals ObjectPrototype s = (s = ''[object Object]'')"
| "sample_text_equals ObjectFunction s = (s = ''function Object() { [native code] }'')"
| "sample_text_equals (Builtin f) s = (s = ''function '' @ f @ ''() { [native code] }'')"

fun sample_equals :: "sample_other js_value \<Rightarrow> sample_other js_value \<Rightarrow> exn + bool" where
  "sample_equals (JOther a) (JOther b) = Inr (a = b)"
| "sample_equals (JOther a) (JString s) = Inr (sample_text_equals a s)"
| "sample_equals (JString s) (JOther b) = Inr (sample_text_equals b s)"
| "sample_equals a b = Inr (a = b)"

definition sample_runtime :: "sample_other runtime" where
  "sample_runtime =
     \<lparr> get_property = sample_get,
       truthy_other = (\<lambda>v. v \<noteq> Number 0),
       loose_equals = sample_equals \<rparr>"

text \<open>
  \<open>sample_aliases\<close>: a table with the two specific names the comment above
  \<open>getNetworkName\<close> gives, "from generic 'testnet' to specific 'testnet3', 'sepolia'".
\<close>

definition sample_aliases :: "sample_other js_value" where
  "sample_aliases =
     JOther (PlainObject
       [(''btc'', JOther (PlainObject [(''testnet'', JString ''testnet3'')])),
        (''eth'', JOther (PlainObject [(''testnet'', JString ''sepolia'')]))])"

section \<open>Evaluation rules\<close>

text \<open>Rules that let the simplifier run the recursive functions on numerals.\<close>

lemma schedule_numeral:
  "schedule (numeral k) ws =
     schedule (pred_numeral k)
       (add32 (add32 (add32 (small_sigma1 (ws ! 1)) (ws ! 6)) (small_sigma0 (ws ! 14))) (ws ! 15)
        # ws)"
  by (simp only: numeral_eq_Suc [of k] schedule.simps)

lemma be_bytes_numeral:
  "be_bytes (numeral k) v = be_bytes (pred_numeral k) (v div 256) @ [of_nat (v mod 256)]"
  by (simp only: numeral_eq_Suc [of k] be_bytes.simps)

lemma replicate_numeral: "replicate (numeral k) x = x # replicate (pred_numeral k) x"
  by (simp only: numeral_eq_Suc [of k] replicate.simps)

lemma length_Cons_plus: "length (x # xs) = 1 + length xs"
  by simp

lemmas sha_eval =
  sha256_def pad_def compress_def round_constants_def initial_state_def add32_def rotr_def
  shr_def big_sigma0_def big_sigma1_def small_sigma0_def small_sigma1_def sha_ch_def
  sha_maj_def schedule_numeral be_bytes_numeral replicate_numeral length_Cons_plus

lemmas text_eval =
  utf8_def utf8_char_def code_unit_def is_digit_def array_byte_def hex_digit_def
  toLowerCase_def lower_char_def char_of_def bit_Suc_0_iff

lemmas sample_eval =
  sample_bitcore_def sample_parse_def accepts_def getAddressCoin_def
  construct_and_return_def translateAddress_def

lemmas network_eval =
  compareNetworks_def resolve_def getNetworkName_def getNetworkType_def sample_aliases_def
  sample_runtime_def inherited_def prototype_names_def decimal_def

section \<open>Digests\<close>

text \<open>A digest has 32 bytes, whatever was hashed.\<close>

lemma length_sha_round: "length (sha_round st kw) = length st"
  by (induction st kw rule: sha_round.induct) (simp_all add: Let_def)

lemma length_foldl_sha_round: "length (foldl sha_round st kws) = length st"
  by (induction kws arbitrary: st) (simp_all add: length_sha_round)

lemma length_compress: "length (compress st blk) = length st"
  by (simp add: compress_def Let_def length_foldl_sha_round)

lemma length_blocks: "length (blocks st bs) = length st"
  by (induction st bs rule: blocks.induct) (simp_all add: length_compress)

lemma length_be_bytes: "length (be_bytes k v) = k"
  by (induction k arbitrary: v) simp_all

lemma length_concat_be_bytes: "length (concat (map (be_bytes 4) ws)) = 4 * length ws"
  by (induction ws) (simp_all add: length_be_bytes)

lemma length_sha256: "length (sha256 m) = 32"
  by (simp add: sha256_def length_concat_be_bytes length_blocks initial_state_def)

lemma length_sha256sha256: "length (sha256sha256 buf) = 32"
  by (simp add: sha256sha256_def length_sha256)

text \<open>
  The FIPS 180-4 one-block test vector: SHA-256 of \<open>abc\<close> is \<open>ba7816bf ... f20015ad\<close>.
\<close>

lemma sha256_abc:
  "sha256 [97, 98, 99] =
     [186, 120, 22, 191, 143, 1, 207, 234, 65, 65, 64, 222, 93, 174, 34, 35,
      176, 3, 97, 163, 150, 23, 122, 156, 180, 16, 255, 97, 242, 0, 21, 173]"
  by (simp add: sha_eval)

lemma sha256_sha256_abc:
  "sha256 [186, 120, 22, 191, 143, 1, 207, 234, 65, 65, 64, 222, 93, 174, 34, 35,
      176, 3, 97, 163, 150, 23, 122, 156, 180, 16, 255, 97, 242, 0, 21, 173] =
     [79, 139, 66, 194, 45, 211, 114, 155, 81, 155, 166, 246, 141, 45, 167, 204,
      91, 45, 96, 109, 5, 218, 237, 90, 213, 18, 140, 192, 62, 108, 99, 88]"
  by (simp add: sha_eval)

lemma digest_abc:
  "sha256sha256 (utf8 ''abc'') =
     [79, 139, 66, 194, 45, 211, 114, 155, 81, 155, 166, 246, 141, 45, 167, 204,
      91, 45, 96, 109, 5, 218, 237, 90, 213, 18, 140, 192, 62, 108, 99, 88]"
proof -
  have "utf8 ''abc'' = [97, 98, 99]"
    by (simp add: text_eval)
  then show ?thesis
    by (simp only: sha256sha256_def sha256_abc sha256_sha256_abc)
qed

lemma sha256_zeros:
  "sha256 [0, 0] =
     [150, 162, 150, 210, 36, 242, 133, 198, 123, 238, 147, 195, 15, 138, 48, 145,
      87, 240, 218, 163, 93, 197, 184, 126, 65, 11, 120, 99, 10, 9, 207, 199]"
  by (simp add: sha_eval)

lemma sha256_sha256_zeros:
  "sha256 [150, 162, 150, 210, 36, 242, 133, 198, 123, 238, 147, 195, 15, 138, 48, 145,
      87, 240, 218, 163, 93, 197, 184, 126, 65, 11, 120, 99, 10, 9, 207, 199] =
     [64, 127, 235, 74, 75, 131, 3, 186, 244, 248, 78, 41, 162, 9, 224, 220,
      253, 98, 232, 31, 136, 200, 237, 183, 103, 92, 90, 149, 217, 14, 92, 144]"
  by (simp add: sha_eval)

lemma digest_zeros:
  "sha256sha256 [0, 0] =
     [64, 127, 235, 74, 75, 131, 3, 186, 244, 248, 78, 41, 162, 9, 224, 220,
      253, 98, 232, 31, 136, 200, 237, 183, 103, 92, 90, 149, 217, 14, 92, 144]"
  by (simp only: sha256sha256_def sha256_zeros sha256_sha256_zeros)

section \<open>Properties of message hashing and verification\<close>

lemma hashMessage_Str:
  "s \<noteq> [] \<Longrightarrow>
   hashMessage P (Str s) noReverse =
     Inr (if noReverse then sha256sha256 (utf8 s) else rev (sha256sha256 (utf8 s)))"
  by (simp add: hashMessage_def checkArgument_def buffer_from_def readReverse_def)

lemma tryImportSignature_cases:
  "tryImportSignature P sg =
     (case import_signature P sg of Inl e \<Rightarrow> Inr None | Inr b \<Rightarrow> Inr (Some b))"
  by (cases "import_signature P sg") (simp_all add: tryImportSignature_def)

lemma tryImportPublicKey_cases:
  "tryImportPublicKey pk =
     (case buffer_from_hex pk of Inl e \<Rightarrow> Inr None | Inr b \<Rightarrow> Inr (Some b))"
  by (cases "buffer_from_hex pk") (simp_all add: tryImportPublicKey_def)

lemma tryVerifyMessage_cases:
  "tryVerifyMessage P h sig pk =
     Inr (case ecdsaVerify P sig h pk of Inl e \<Rightarrow> False | Inr b \<Rightarrow> b)"
  by (cases "ecdsaVerify P sig h pk") (simp_all add: tryVerifyMessage_def)

text \<open>
  On a message whose flattened text is not empty, \<open>verifyMessage\<close> is a chain of three
  attempts, each of which turns a failure into \<open>false\<close>.
\<close>

lemma verifyMessage_nonempty:
  assumes "flatten message = Str s" and "s \<noteq> []"
  shows "verifyMessage P message sg pk =
     (case import_signature P sg of
        Inl e \<Rightarrow> Inr False
      | Inr sig \<Rightarrow>
          (case buffer_from_hex pk of
             Inl e \<Rightarrow> Inr False
           | Inr key \<Rightarrow>
               Inr (case ecdsaVerify P sig (sha256sha256 (utf8 s)) key of
                      Inl e \<Rightarrow> False | Inr b \<Rightarrow> b)))"
proof -
  have t: "truthy message"
    using assms by (cases message) auto
  show ?thesis
    using assms t
    by (simp add: verifyMessage_def checkArgument_def hashMessage_Str
        tryImportSignature_cases tryImportPublicKey_cases tryVerifyMessage_cases
        split: sum.splits)
qed

text \<open>
  Claim C1, as amended. For every message that is a non-empty string, or an array of
  strings that joins to a non-empty string, and for every signature and public-key
  argument, \<open>verifyMessage\<close> returns a boolean and no exception escapes it. It returns
  \<open>false\<close> when the signature cannot be made a buffer, when secp256k1 cannot import
  the buffer, and when the public key cannot be made a buffer.
\<close>

theorem verifyMessage_returns_boolean:
  assumes "flatten message = Str s" and "s \<noteq> []"
  shows "(\<exists>b. verifyMessage P message signature publicKey = Inr b)
         \<and> (\<forall>e. buffer_from_hex signature = Inl e \<longrightarrow>
               verifyMessage P message signature publicKey = Inr False)
         \<and> (\<forall>b e. buffer_from_hex signature = Inr b \<longrightarrow> signatureImport P b = Inl e \<longrightarrow>
               verifyMessage P message signature publicKey = Inr False)
         \<and> (\<forall>e. buffer_from_hex publicKey = Inl e \<longrightarrow>
               verifyMessage P message signature publicKey = Inr False)"
  using assms
  by (auto simp add: verifyMessage_nonempty import_signature_def split: sum.splits)

text \<open>
  The three failures on the message \<open>abc\<close>: a signature string that is not hexadecimal
  decodes to the empty buffer, which is not imported; a signature that is no buffer
  and no string; a public key that is no buffer and no string.
\<close>

theorem verifyMessage_returns_boolean_witness:
  "verifyMessage sample_platform (Str ''abc'') (HexString ''not-hex!!'') (HexString ''02'')
     = Inr False
   \<and> verifyMessage sample_platform (Str ''abc'') NotBytes (HexString ''02'') = Inr False
   \<and> verifyMessage sample_platform (Str ''abc'') (HexString ''3006'') NotBytes = Inr False"
proof -
  have m: "flatten (Str ''abc'') = Str ''abc''" and n: "''abc'' \<noteq> []"
    by simp_all
  have h: "buffer_from_hex (HexString ''not-hex!!'') = Inr []"
    by (simp add: buffer_from_hex_def text_eval)
  have i: "signatureImport sample_platform [] = Inl LibraryError"
    by (simp add: sample_platform_def)
  have t: "buffer_from_hex NotBytes = Inl TypeError"
    by (simp add: buffer_from_hex_def)
  show ?thesis
    using
      verifyMessage_returns_boolean
        [OF m n, of sample_platform "HexString ''not-hex!!''" "HexString ''02''"]
      verifyMessage_returns_boolean [OF m n, of sample_platform NotBytes "HexString ''02''"]
      verifyMessage_returns_boolean [OF m n, of sample_platform "HexString ''3006''" NotBytes]
      h i t
    by blast
qed

text \<open>
  Claim C1 as stated ranges over every message: on the empty string the precondition
  check of \<open>verifyMessage\<close> throws, whatever the signature and the key are.
\<close>

theorem verifyMessage_throws_counterexample:
  "verifyMessage sample_platform (Str []) (HexString ''not-hex!!'') (HexString ''02'')
     = Inl PreconditionFailed"
  by (simp add: verifyMessage_def checkArgument_def)

text \<open>
  Claim C2. \<open>verifyMessage\<close> hands \<open>ecdsaVerify\<close> the double SHA-256 of the bytes of the
  flattened message as computed, not reversed: it is the digest \<open>hashMessage\<close> returns
  with reversal disabled, while \<open>hashMessage\<close> by default returns its reversal.
\<close>

theorem verifyMessage_uses_unreversed_digest:
  assumes "flatten message = Str s" and "s \<noteq> []"
    and "import_signature P signature = Inr sig"
    and "buffer_from_hex publicKey = Inr key"
  shows "verifyMessage P message signature publicKey =
           Inr (case ecdsaVerify P sig (sha256sha256 (utf8 s)) key of
                  Inl e \<Rightarrow> False | Inr b \<Rightarrow> b)
         \<and> hashMessage P (Str s) True = Inr (sha256sha256 (utf8 s))
         \<and> hashMessage P (Str s) False = Inr (rev (sha256sha256 (utf8 s)))"
  using assms by (simp add: verifyMessage_nonempty hashMessage_Str)

text \<open>
  With \<open>sample_platform\<close>, whose verification accepts the signature that equals the
  digest: on \<open>abc\<close> the digest \<open>4f8b42c2 ... 3e6c6358\<close> is accepted, its reversal is not.
\<close>

theorem verifyMessage_uses_unreversed_digest_witness:
  "verifyMessage sample_platform (Str ''abc'')
     (Buffer [79, 139, 66, 194, 45, 211, 114, 155, 81, 155, 166, 246, 141, 45, 167, 204,
              91, 45, 96, 109, 5, 218, 237, 90, 213, 18, 140, 192, 62, 108, 99, 88])
     (Buffer (replicate 33 2)) = Inr True
   \<and> verifyMessage sample_platform (Str ''abc'')
     (Buffer [88, 99, 108, 62, 192, 140, 18, 213, 90, 237, 218, 5, 109, 96, 45, 91,
              204, 167, 45, 141, 246, 166, 155, 81, 155, 114, 211, 45, 194, 66, 139, 79])
     (Buffer (replicate 33 2)) = Inr False"
proof -
  let ?d = "[79, 139, 66, 194, 45, 211, 114, 155, 81, 155, 166, 246, 141, 45, 167, 204,
             91, 45, 96, 109, 5, 218, 237, 90, 213, 18, 140, 192, 62, 108, 99, 88] :: byte list"
  have m: "flatten (Str ''abc'') = Str ''abc''" and n: "''abc'' \<noteq> []"
    by simp_all
  have k: "buffer_from_hex (Buffer (replicate 33 2)) = Inr (replicate 33 2)"
    by (simp add: buffer_from_hex_def)
  have s1: "import_signature sample_platform (Buffer ?d) = Inr ?d"
    by (simp add: import_signature_def buffer_from_hex_def sample_platform_def)
  have s2: "import_signature sample_platform (Buffer (rev ?d)) = Inr (rev ?d)"
    by (simp add: import_signature_def buffer_from_hex_def sample_platform_def)
  have v: "ecdsaVerify sample_platform sg h (replicate 33 2) = Inr (sg = h)" for sg h
    by (simp add: sample_platform_def)
  show ?thesis
    using verifyMessage_uses_unreversed_digest [OF m n s1 k]
      verifyMessage_uses_unreversed_digest [OF m n s2 k]
    by (simp add: v digest_abc)
qed

text \<open>
  Claim C7. For every non-empty text, the digest \<open>hashMessage\<close> returns by default
  (reversal enabled) is the byte-order reversal of the 32-byte digest it returns with
  reversal disabled.
\<close>

theorem hashMessage_reverses_digest:
  assumes "s \<noteq> []"
  shows "\<exists>d. length d = 32
           \<and> hashMessage P (Str s) True = Inr d
           \<and> hashMessage P (Str s) False = Inr (rev d)"
  using assms by (simp add: hashMessage_Str length_sha256sha256)

text \<open>
  On \<open>abc\<close>: \<open>4f8b42c2 ... 3e6c6358\<close> with reversal disabled, \<open>58636c3e ... c2428b4f\<close>
  by default.
\<close>

theorem hashMessage_reverses_digest_witness:
  "''abc'' \<noteq> []
   \<and> hashMessage sample_platform (Str ''abc'') True =
       Inr [79, 139, 66, 194, 45, 211, 114, 155, 81, 155, 166, 246, 141, 45, 167, 204,
            91, 45, 96, 109, 5, 218, 237, 90, 213, 18, 140, 192, 62, 108, 99, 88]
   \<and> hashMessage sample_platform (Str ''abc'') False =
       Inr [88, 99, 108, 62, 192, 140, 18, 213, 90, 237, 218, 5, 109, 96, 45, 91,
            204, 167, 45, 141, 246, 166, 155, 81, 155, 114, 211, 45, 194, 66, 139, 79]"
  using hashMessage_reverses_digest [of "''abc''" sample_platform]
  by (simp add: hashMessage_Str digest_abc)

text \<open>
  Claim C9, as amended. It is \<open>verifyMessage\<close> that joins an array of strings with no
  separator before hashing: verifying an array is verifying the string its elements
  concatenate to. \<open>hashMessage\<close> itself does not join: given an array it hashes the
  buffer that holds one byte per element.
\<close>

theorem verifyMessage_joins_segments:
  "verifyMessage P (StrArray xs) signature publicKey =
     verifyMessage P (Str (concat xs)) signature publicKey
   \<and> flatten (StrArray xs) = Str (concat xs)
   \<and> buffer_from P (StrArray xs) = Inr (map (array_byte (toUint8 P)) xs)"
proof (cases "concat xs = []")
  case True
  then show ?thesis
    by (simp add: verifyMessage_def checkArgument_def hashMessage_def buffer_from_def)
next
  case False
  then show ?thesis
    by (simp add: verifyMessage_nonempty [of _ "concat xs"] buffer_from_def)
qed

text \<open>
  Claim C9 as stated, on its own example: \<open>hashMessage(["ab", "c"])\<close> hashes the two
  bytes \<open>00 00\<close> (neither element is a number) and \<open>hashMessage("abc")\<close> hashes
  \<open>61 62 63\<close>; the two digests differ.
\<close>

theorem hashMessage_array_counterexample:
  "hashMessage sample_platform (StrArray [''ab'', ''c'']) False =
     Inr [144, 92, 14, 217, 149, 90, 92, 103, 183, 237, 200, 136, 31, 232, 98, 253,
          220, 224, 9, 162, 41, 78, 248, 244, 186, 3, 131, 75, 74, 235, 127, 64]
   \<and> hashMessage sample_platform (Str ''abc'') False =
     Inr [88, 99, 108, 62, 192, 140, 18, 213, 90, 237, 218, 5, 109, 96, 45, 91,
          204, 167, 45, 141, 246, 166, 155, 81, 155, 114, 211, 45, 194, 66, 139, 79]"
proof -
  have b: "buffer_from sample_platform (StrArray [''ab'', ''c'']) = Inr [0, 0]"
    by (simp add: buffer_from_def text_eval)
  have "hashMessage sample_platform (StrArray [''ab'', ''c'']) False =
          Inr (rev (sha256sha256 [0, 0]))"
    by (simp add: hashMessage_def checkArgument_def b readReverse_def)
  then show ?thesis
    by (simp add: digest_zeros hashMessage_Str digest_abc)
qed

text \<open>
  Claim C10. \<open>hashMessage\<close> and \<open>verifyMessage\<close> reject a falsy message: on the empty
  string and on \<open>null\<close>/\<open>undefined\<close> both throw the precondition failure. \<open>hashMessage\<close>
  returns a digest exactly on a truthy message, and \<open>verifyMessage\<close> returns a boolean
  exactly when the flattened message is a non-empty string; otherwise it throws the
  precondition failure.
\<close>

theorem falsy_message_rejected:
  "hashMessage P (Str []) noReverse = Inl PreconditionFailed
   \<and> hashMessage P Nullish noReverse = Inl PreconditionFailed
   \<and> verifyMessage P (Str []) signature publicKey = Inl PreconditionFailed
   \<and> verifyMessage P Nullish signature publicKey = Inl PreconditionFailed
   \<and> ((\<exists>d. hashMessage P msg noReverse = Inr d) = truthy msg)
   \<and> ((\<exists>b. verifyMessage P message signature publicKey = Inr b)
        = (\<exists>s. flatten message = Str s \<and> s \<noteq> []))
   \<and> ((verifyMessage P message signature publicKey = Inl PreconditionFailed)
        = (\<not> (\<exists>s. flatten message = Str s \<and> s \<noteq> [])))"
proof -
  have h: "(\<exists>d. hashMessage P msg noReverse = Inr d) = truthy msg"
    by (cases msg) (simp_all add: hashMessage_def checkArgument_def buffer_from_def Let_def)
  have e: "verifyMessage P message signature publicKey = Inl PreconditionFailed"
    if "\<not> (\<exists>s. flatten message = Str s \<and> s \<noteq> [])"
    using that
    by (cases message) (simp_all add: verifyMessage_def checkArgument_def hashMessage_def)
  have r: "\<exists>b. verifyMessage P message signature publicKey = Inr b"
    if "flatten message = Str s" and "s \<noteq> []" for s
    using that by (auto simp add: verifyMessage_nonempty split: sum.splits)
  have v: "(\<exists>b. verifyMessage P message signature publicKey = Inr b)
        = (\<exists>s. flatten message = Str s \<and> s \<noteq> [])"
    using e r by fastforce
  have w: "(verifyMessage P message signature publicKey = Inl PreconditionFailed)
        = (\<not> (\<exists>s. flatten message = Str s \<and> s \<noteq> []))"
    using e r by fastforce
  show ?thesis
    using h v w by (simp add: hashMessage_def verifyMessage_def checkArgument_def)
qed

section \<open>Properties of address identity\<close>

lemma getAddressCoin_find:
  "getAddressCoin L address = Inr (find (accepts L address) [BTC, BCH, DOGE, LTC])"
  by (simp add: getAddressCoin_def construct_and_return_def accepts_def split: sum.splits)

lemma getAddressCoin_Some_accepts:
  assumes "getAddressCoin L address = Inr (Some c)"
  shows "\<exists>a. new_Address L c address = Inr a"
proof -
  have "find (accepts L address) [BTC, BCH, DOGE, LTC] = Some c"
    using assms by (simp add: getAddressCoin_find)
  then have "accepts L address c"
    by (auto split: if_splits)
  then show ?thesis
    by (simp add: accepts_def split: sum.splits)
qed

lemma accepts_getAddressCoin:
  assumes "accepts L address c"
  shows "\<exists>c'. getAddressCoin L address = Inr (Some c')"
proof -
  have "c \<in> set [BTC, BCH, DOGE, LTC]"
    by (cases c) simp_all
  then have "find (accepts L address) [BTC, BCH, DOGE, LTC] \<noteq> None"
    using assms by (auto simp add: find_None_iff)
  then show ?thesis
    by (auto simp add: getAddressCoin_find)
qed

lemma translateAddress_Some:
  assumes "getAddressCoin L address = Inr (Some origCoin)"
    and "new_Address L origCoin address = Inr a"
  shows "translateAddress L address coin =
           (case fromObject L coin (toObject L origCoin a) of
              Inl e \<Rightarrow> Inl e
            | Inr result \<Rightarrow> Inr (rendered L coin result))"
  using assms by (simp add: translateAddress_def rendered_def Let_def split: sum.splits)

lemma translateAddress_Inr:
  assumes "translateAddress L address coin = Inr b"
  shows "\<exists>origCoin a result.
           getAddressCoin L address = Inr (Some origCoin)
           \<and> new_Address L origCoin address = Inr a
           \<and> fromObject L coin (toObject L origCoin a) = Inr result
           \<and> b = rendered L coin result"
proof (cases "find (accepts L address) [BTC, BCH, DOGE, LTC]")
  case None
  then have "translateAddress L address coin = Inl TypeError"
    by (simp only: translateAddress_def getAddressCoin_find) simp
  then show ?thesis
    using assms by simp
next
  case (Some origCoin)
  then have c: "getAddressCoin L address = Inr (Some origCoin)"
    by (simp only: getAddressCoin_find)
  then obtain a where a: "new_Address L origCoin address = Inr a"
    using getAddressCoin_Some_accepts by blast
  show ?thesis
    using assms c a translateAddress_Some [OF c a, of coin]
    by (auto split: sum.splits)
qed

lemma rendered_classified:
  assumes "codec_laws L" and "fromObject L c obj = Inr a"
  shows "\<exists>c' a'. getAddressCoin L (rendered L c a) = Inr (Some c')
           \<and> new_Address L c' (rendered L c a) = Inr a'
           \<and> obj_hash (toObject L c' a') = obj_hash obj"
proof -
  obtain a1 where a1: "new_Address L c (rendered L c a) = Inr a1"
    and h1: "obj_hash (toObject L c a1) = obj_hash (toObject L c a)"
    using assms unfolding codec_laws_def by blast
  have "accepts L (rendered L c a) c"
    using a1 by (simp add: accepts_def)
  then obtain c' where c': "getAddressCoin L (rendered L c a) = Inr (Some c')"
    using accepts_getAddressCoin by blast
  then obtain a' where a': "new_Address L c' (rendered L c a) = Inr a'"
    using getAddressCoin_Some_accepts by blast
  have "obj_hash (toObject L c' a') = obj_hash (toObject L c a1)"
    using assms(1) a' a1 unfolding codec_laws_def by blast
  moreover have "obj_hash (toObject L c a) = obj_hash obj"
    using assms unfolding codec_laws_def by blast
  ultimately show ?thesis
    using c' a' h1 by auto
qed

lemma codec_laws_sample: "codec_laws sample_bitcore"
proof -
  have p: "sample_parse c (t # h) = Inr a \<Longrightarrow> obj_hash a = h" for c t h a
    by (auto simp add: sample_parse_def split: if_splits)
  have q: "\<exists>a'. sample_parse c (rendered sample_bitcore c a) = Inr a'"
    if "obj_hash a \<noteq> []" for c a
    using that by (cases c) (simp_all add: rendered_def sample_bitcore_def sample_parse_def)
  have r: "\<exists>t. rendered sample_bitcore c a = t # obj_hash a" for c a
    by (simp add: rendered_def sample_bitcore_def)
  show ?thesis
    unfolding codec_laws_def
  proof (intro conjI allI impI)
    fix c obj a
    assume "fromObject sample_bitcore c obj = Inr a"
    then show "obj_hash (toObject sample_bitcore c a) = obj_hash obj"
      by (auto simp add: sample_bitcore_def split: if_splits)
  next
    fix c obj a
    assume "fromObject sample_bitcore c obj = Inr a"
    then have "obj_hash a \<noteq> []"
      by (auto simp add: sample_bitcore_def split: if_splits)
    then obtain a' where a': "sample_parse c (rendered sample_bitcore c a) = Inr a'"
      using q by blast
    then have "obj_hash a' = obj_hash a"
      using p r by metis
    then show "\<exists>a'. new_Address sample_bitcore c (rendered sample_bitcore c a) = Inr a'
        \<and> obj_hash (toObject sample_bitcore c a') = obj_hash (toObject sample_bitcore c a)"
      using a' by (simp add: sample_bitcore_def)
  next
    fix c c' s a a'
    assume "new_Address sample_bitcore c s = Inr a"
      and "new_Address sample_bitcore c' s = Inr a'"
    then show "obj_hash (toObject sample_bitcore c a) = obj_hash (toObject sample_bitcore c' a')"
      by (cases s) (auto simp add: sample_bitcore_def sample_parse_def split: if_splits)
  qed
qed

text \<open>
  Claim C3. \<open>getAddressCoin\<close> tries the libraries in the order btc, bch, doge, ltc and
  returns the first one whose \<open>Address\<close> constructor accepts the string, so a string
  that several accept resolves to the earliest; when none accepts it (as for the empty
  string, which every bitcore library rejects) it returns \<open>undefined\<close>. It never
  throws.
\<close>

theorem getAddressCoin_first_accepting:
  "getAddressCoin L address = Inr (find (accepts L address) [BTC, BCH, DOGE, LTC])
   \<and> ((getAddressCoin L address = Inr None) = (\<forall>c. \<not> accepts L address c))
   \<and> (accepts L address BTC \<longrightarrow> getAddressCoin L address = Inr (Some BTC))
   \<and> (\<not> accepts L address BTC \<longrightarrow> accepts L address BCH \<longrightarrow>
         getAddressCoin L address = Inr (Some BCH))
   \<and> (\<not> accepts L address BTC \<longrightarrow> \<not> accepts L address BCH \<longrightarrow>
         accepts L address DOGE \<longrightarrow> getAddressCoin L address = Inr (Some DOGE))
   \<and> (\<not> accepts L address BTC \<longrightarrow> \<not> accepts L address BCH \<longrightarrow>
         \<not> accepts L address DOGE \<longrightarrow> accepts L address LTC \<longrightarrow>
         getAddressCoin L address = Inr (Some LTC))"
proof -
  have n: "(getAddressCoin L address = Inr None) = (\<forall>c. \<not> accepts L address c)"
  proof
    assume "getAddressCoin L address = Inr None"
    then show "\<forall>c. \<not> accepts L address c"
      using accepts_getAddressCoin [of L address] by auto
  next
    assume "\<forall>c. \<not> accepts L address c"
    then show "getAddressCoin L address = Inr None"
      by (simp add: getAddressCoin_find)
  qed
  show ?thesis
    using n by (simp add: getAddressCoin_find)
qed

text \<open>
  In \<open>sample_bitcore\<close> the string \<open>1abc\<close> is read by the BTC and the BCH library and
  resolves to BTC; the empty string is read by none.
\<close>

theorem getAddressCoin_first_accepting_witness:
  "accepts sample_bitcore ''1abc'' BTC \<and> accepts sample_bitcore ''1abc'' BCH
   \<and> getAddressCoin sample_bitcore ''1abc'' = Inr (Some BTC)
   \<and> \<not> accepts sample_bitcore ''qabc'' BTC \<and> accepts sample_bitcore ''qabc'' BCH
   \<and> getAddressCoin sample_bitcore ''qabc'' = Inr (Some BCH)
   \<and> getAddressCoin sample_bitcore ''Dabc'' = Inr (Some DOGE)
   \<and> getAddressCoin sample_bitcore ''Labc'' = Inr (Some LTC)
   \<and> getAddressCoin sample_bitcore [] = Inr None
   \<and> getAddressCoin sample_bitcore ''not-an-address'' = Inr None"
  using getAddressCoin_first_accepting [of sample_bitcore "''1abc''"]
    getAddressCoin_first_accepting [of sample_bitcore "''qabc''"]
  by (simp add: sample_eval)

text \<open>
  Claim C4, as amended. On an address that \<open>getAddressCoin\<close> does not recognise,
  \<open>translateAddress\<close> throws the runtime's \<open>TypeError\<close> (it indexes the library table
  with \<open>undefined\<close>); the code has no typed InvalidSourceAddress error. On an address
  that is recognised, the translation fails only when \<open>fromObject\<close> of the target
  library rejects the decoded object, and otherwise returns the re-encoded string.
\<close>

theorem translateAddress_failure:
  "(getAddressCoin L address = Inr None \<longrightarrow> translateAddress L address coin = Inl TypeError)
   \<and> (\<forall>origCoin. getAddressCoin L address = Inr (Some origCoin) \<longrightarrow>
         (\<exists>a. new_Address L origCoin address = Inr a
            \<and> translateAddress L address coin =
                (case fromObject L coin (toObject L origCoin a) of
                   Inl e \<Rightarrow> Inl e
                 | Inr result \<Rightarrow>
                     Inr (if coin = BCH then toLegacyAddress L result
                          else toString L coin result))))"
proof (intro conjI allI impI)
  assume "getAddressCoin L address = Inr None"
  then show "translateAddress L address coin = Inl TypeError"
    by (simp add: translateAddress_def)
next
  fix origCoin
  assume c: "getAddressCoin L address = Inr (Some origCoin)"
  then obtain a where a: "new_Address L origCoin address = Inr a"
    using getAddressCoin_Some_accepts by blast
  show "\<exists>a. new_Address L origCoin address = Inr a
            \<and> translateAddress L address coin =
                (case fromObject L coin (toObject L origCoin a) of
                   Inl e \<Rightarrow> Inl e
                 | Inr result \<Rightarrow>
                     Inr (if coin = BCH then toLegacyAddress L result
                          else toString L coin result))"
    using a translateAddress_Some [OF c a, of coin]
    by (auto simp add: rendered_def split: sum.splits)
qed

text \<open>
  In \<open>sample_bitcore\<close>: \<open>x\<close> is read by no library and the translation throws;
  \<open>qabc\<close> is a BCH address and translates to DOGE, and back to the BCH legacy form.
\<close>

theorem translateAddress_failure_witness:
  "getAddressCoin sample_bitcore ''x'' = Inr None
   \<and> translateAddress sample_bitcore ''x'' DOGE = Inl TypeError
   \<and> getAddressCoin sample_bitcore ''qabc'' = Inr (Some BCH)
   \<and> translateAddress sample_bitcore ''qabc'' DOGE = Inr ''Dabc''
   \<and> translateAddress sample_bitcore ''Dabc'' BCH = Inr ''1abc''"
  using translateAddress_failure [of sample_bitcore "''x''" DOGE]
    translateAddress_failure [of sample_bitcore "''qabc''" DOGE]
  by (simp add: sample_eval)

text \<open>
  Claim C4 as stated promises a typed error for an unclassifiable address; what
  escapes is the untyped \<open>TypeError\<close>.
\<close>

theorem translateAddress_untyped_counterexample:
  "getAddressCoin sample_bitcore ''not-an-address'' = Inr None
   \<and> translateAddress sample_bitcore ''not-an-address'' LTC = Inl TypeError"
  by (simp add: sample_eval)

text \<open>
  Claim C5. Let the address libraries satisfy \<open>codec_laws\<close>, let \<open>address\<close> be valid
  under \<open>F\<close>, and let the translation to \<open>T\<close> and the translation back to \<open>F\<close> return.
  Then the result is an address that \<open>getAddressCoin\<close> recognises, and every library
  that reads it finds the hash that \<open>F\<close> finds in \<open>address\<close>. The strings need not be
  equal.
\<close>

theorem translateAddress_round_trip:
  assumes "codec_laws L"
    and "new_Address L F address = Inr a"
    and "translateAddress L address T = Inr there"
    and "translateAddress L there F = Inr back"
  shows "(\<exists>F'. getAddressCoin L back = Inr (Some F'))
         \<and> (\<forall>c a'. new_Address L c back = Inr a' \<longrightarrow>
               obj_hash (toObject L c a') = obj_hash (toObject L F a))"
proof -
  obtain F0 a0 r where 1: "new_Address L F0 address = Inr a0"
    and 2: "fromObject L T (toObject L F0 a0) = Inr r"
    and 3: "there = rendered L T r"
    using translateAddress_Inr [OF assms(3)] by blast
  have 4: "obj_hash (toObject L F0 a0) = obj_hash (toObject L F a)"
    using assms(1) 1 assms(2) unfolding codec_laws_def by blast
  obtain T1 a1 r1 where 5: "new_Address L T1 there = Inr a1"
    and 6: "fromObject L F (toObject L T1 a1) = Inr r1"
    and 7: "back = rendered L F r1"
    using translateAddress_Inr [OF assms(4)] by blast
  obtain T2 a2 where 8: "new_Address L T2 there = Inr a2"
    and 9: "obj_hash (toObject L T2 a2) = obj_hash (toObject L F0 a0)"
    using rendered_classified [OF assms(1) 2] 3 by auto
  have 10: "obj_hash (toObject L T1 a1) = obj_hash (toObject L T2 a2)"
    using assms(1) 5 8 unfolding codec_laws_def by blast
  obtain F' a' where 11: "getAddressCoin L back = Inr (Some F')"
    and 12: "new_Address L F' back = Inr a'"
    and 13: "obj_hash (toObject L F' a') = obj_hash (toObject L T1 a1)"
    using rendered_classified [OF assms(1) 6] 7 by auto
  have "obj_hash (toObject L c b) = obj_hash (toObject L F a)"
    if "new_Address L c back = Inr b" for c b
  proof -
    have "obj_hash (toObject L c b) = obj_hash (toObject L F' a')"
      using assms(1) that 12 unfolding codec_laws_def by blast
    then show ?thesis
      using 13 10 9 4 by simp
  qed
  then show ?thesis
    using 11 by blast
qed

text \<open>
  In \<open>sample_bitcore\<close>, \<open>qabc\<close> (BCH) goes to \<open>Labc\<close> (LTC) and comes back as the legacy
  form \<open>1abc\<close>, which resolves to BTC and holds the same hash \<open>abc\<close>.
\<close>

theorem translateAddress_round_trip_witness:
  "codec_laws sample_bitcore
   \<and> new_Address sample_bitcore BCH ''qabc'' =
       Inr \<lparr>obj_hash = ''abc'', obj_type = ''pubkeyhash'', obj_network = ''livenet''\<rparr>
   \<and> translateAddress sample_bitcore ''qabc'' LTC = Inr ''Labc''
   \<and> translateAddress sample_bitcore ''Labc'' BCH = Inr ''1abc''
   \<and> getAddressCoin sample_bitcore ''1abc'' = Inr (Some BTC)
   \<and> new_Address sample_bitcore BTC ''1abc'' =
       Inr \<lparr>obj_hash = ''abc'', obj_type = ''pubkeyhash'', obj_network = ''livenet''\<rparr>
   \<and> obj_hash (toObject sample_bitcore BTC
        \<lparr>obj_hash = ''abc'', obj_type = ''pubkeyhash'', obj_network = ''livenet''\<rparr>)
      = obj_hash (toObject sample_bitcore BCH
        \<lparr>obj_hash = ''abc'', obj_type = ''pubkeyhash'', obj_network = ''livenet''\<rparr>)"
proof -
  have 1: "new_Address sample_bitcore BCH ''qabc'' =
             Inr \<lparr>obj_hash = ''abc'', obj_type = ''pubkeyhash'', obj_network = ''livenet''\<rparr>"
    by (simp add: sample_eval)
  have 2: "translateAddress sample_bitcore ''qabc'' LTC = Inr ''Labc''"
    by (simp add: sample_eval)
  have 3: "translateAddress sample_bitcore ''Labc'' BCH = Inr ''1abc''"
    by (simp add: sample_eval)
  have 4: "getAddressCoin sample_bitcore ''1abc'' = Inr (Some BTC)"
    by (simp add: sample_eval)
  have 5: "new_Address sample_bitcore BTC ''1abc'' =
             Inr \<lparr>obj_hash = ''abc'', obj_type = ''pubkeyhash'', obj_network = ''livenet''\<rparr>"
    by (simp add: sample_eval)
  show ?thesis
    using translateAddress_round_trip [OF codec_laws_sample 1 2 3] codec_laws_sample
      1 2 3 4 5
    by simp
qed

section \<open>Properties of network names\<close>

lemma getNetworkType_set:
  "(getNetworkType v \<in> {''testnet'', ''regtest''}) = (v \<notin> {JString ''mainnet'', JString ''livenet''})"
  by (simp add: getNetworkType_def)

lemma lower_testnet: "toLowerCase ''testnet'' = ''testnet''"
  by (simp add: text_eval)

lemma lower_regtest: "toLowerCase ''regtest'' = ''regtest''"
  by (simp add: text_eval)

lemma compareNetworks_resolved:
  assumes "resolve R T chain network1 = Inr v1"
    and "resolve R T chain network2 = Inr v2"
    and "js_equals R v1 v2 = Inr same"
  shows "compareNetworks allowRegtest R T network1 network2 chain =
           Inr (same \<or> (allowRegtest
                  \<and> getNetworkType v1 \<in> {''testnet'', ''regtest''}
                  \<and> getNetworkType v2 \<in> {''testnet'', ''regtest''}))"
  using assms by (simp add: compareNetworks_def)

text \<open>
  Claim C6, as amended. For every pair of network names and every chain, when the two
  lookups and the comparison return, \<open>compareNetworks\<close> returns true exactly when
  either the two resolved values are equal under \<open>==\<close>, or \<open>allowRegtest\<close> is set and
  \<open>getNetworkType\<close> of both resolved values (not of the names as given) lies in
  \<open>{testnet, regtest}\<close>. A missing or empty name resolves to \<open>null\<close>, every other name
  to what \<open>getNetworkName\<close> returns for its lowercase form. In particular \<open>testnet\<close>
  and \<open>regtest\<close> compare true with \<open>allowRegtest\<close> set when neither resolves to
  \<open>mainnet\<close> or \<open>livenet\<close>; without \<open>allowRegtest\<close> they compare true only when
  both resolve to equal values.
\<close>

theorem compareNetworks_characterised:
  "(\<forall>v1 v2 same.
      resolve R T chain network1 = Inr v1 \<longrightarrow> resolve R T chain network2 = Inr v2 \<longrightarrow>
      js_equals R v1 v2 = Inr same \<longrightarrow>
      compareNetworks allowRegtest R T network1 network2 chain =
        Inr (same \<or> (allowRegtest
               \<and> getNetworkType v1 \<in> {''testnet'', ''regtest''}
               \<and> getNetworkType v2 \<in> {''testnet'', ''regtest''})))
   \<and> resolve R T chain None = Inr JNull
   \<and> resolve R T chain (Some n) =
       (if n \<noteq> [] then getNetworkName R T chain (toLowerCase n) else Inr JNull)
   \<and> (\<forall>v1 v2 same.
        getNetworkName R T chain ''testnet'' = Inr v1 \<longrightarrow>
        getNetworkName R T chain ''regtest'' = Inr v2 \<longrightarrow>
        js_equals R v1 v2 = Inr same \<longrightarrow>
        (v1 \<notin> {JString ''mainnet'', JString ''livenet''} \<longrightarrow>
         v2 \<notin> {JString ''mainnet'', JString ''livenet''} \<longrightarrow>
         compareNetworks True R T (Some ''testnet'') (Some ''regtest'') chain = Inr True)
        \<and> compareNetworks False R T (Some ''testnet'') (Some ''regtest'') chain = Inr same)"
proof -
  have r: "resolve R T chain (Some n) =
       (if n \<noteq> [] then getNetworkName R T chain (toLowerCase n) else Inr JNull)" for n
    by (simp add: resolve_def)
  have t: "resolve R T chain (Some ''testnet'') = getNetworkName R T chain ''testnet''"
    by (simp add: r lower_testnet)
  have g: "resolve R T chain (Some ''regtest'') = getNetworkName R T chain ''regtest''"
    by (simp add: r lower_regtest)
  have p: "compareNetworks True R T (Some ''testnet'') (Some ''regtest'') chain = Inr True"
    if "getNetworkName R T chain ''testnet'' = Inr v1"
      and "getNetworkName R T chain ''regtest'' = Inr v2"
      and "js_equals R v1 v2 = Inr same"
      and "v1 \<notin> {JString ''mainnet'', JString ''livenet''}"
      and "v2 \<notin> {JString ''mainnet'', JString ''livenet''}" for v1 v2 same
    using that compareNetworks_resolved [of R T chain "Some ''testnet''" v1 "Some ''regtest''" v2 same True]
    by (simp only: t g getNetworkType_set) simp
  have q: "compareNetworks False R T (Some ''testnet'') (Some ''regtest'') chain = Inr same"
    if "getNetworkName R T chain ''testnet'' = Inr v1"
      and "getNetworkName R T chain ''regtest'' = Inr v2"
      and "js_equals R v1 v2 = Inr same" for v1 v2 same
    using that compareNetworks_resolved [of R T chain "Some ''testnet''" v1 "Some ''regtest''" v2 same False]
    by (simp only: t g) simp
  have n: "resolve R T chain None = Inr JNull"
    by (simp add: resolve_def)
  show ?thesis
    using compareNetworks_resolved [of R T chain network1 _ network2 _ _ allowRegtest] r n p q
    by blast
qed

text \<open>
  With \<open>sample_aliases\<close>: \<open>testnet\<close> resolves to \<open>testnet3\<close> for \<open>btc\<close>, as \<open>TestNet\<close>
  does, and \<open>regtest\<close> to itself. For the chain \<open>constructor\<close> the aliases are the
  function \<open>Object\<close>, whose \<open>length\<close> is the number 1, and \<open>1 == '1'\<close>. The empty
  name resolves to \<open>null\<close>, which equals only \<open>null\<close> and has the type \<open>testnet\<close>.
\<close>

theorem compareNetworks_characterised_witness:
  "compareNetworks True sample_runtime sample_aliases (Some ''testnet'') (Some ''regtest'') ''btc''
     = Inr True
   \<and> compareNetworks False sample_runtime sample_aliases (Some ''testnet'') (Some ''regtest'')
       ''btc'' = Inr False
   \<and> compareNetworks False sample_runtime sample_aliases (Some ''TestNet'') (Some ''testnet3'')
       ''btc'' = Inr True
   \<and> compareNetworks True sample_runtime sample_aliases (Some ''livenet'') (Some ''regtest'')
       ''btc'' = Inr False
   \<and> compareNetworks False sample_runtime sample_aliases (Some ''length'') (Some ''1'')
       ''constructor'' = Inr True
   \<and> compareNetworks False sample_runtime sample_aliases (Some []) (Some []) ''btc'' = Inr True
   \<and> compareNetworks False sample_runtime sample_aliases (Some []) (Some ''testnet'') ''btc''
       = Inr False
   \<and> compareNetworks True sample_runtime sample_aliases (Some []) (Some ''testnet'') ''btc''
       = Inr True"
proof -
  have 1: "resolve sample_runtime sample_aliases ''btc'' (Some ''testnet'') = Inr (JString ''testnet3'')"
    by (simp add: network_eval text_eval)
  have 2: "resolve sample_runtime sample_aliases ''btc'' (Some ''regtest'') = Inr (JString ''regtest'')"
    by (simp add: network_eval text_eval)
  have 3: "resolve sample_runtime sample_aliases ''btc'' (Some ''TestNet'') = Inr (JString ''testnet3'')"
    by (simp add: network_eval text_eval)
  have 4: "resolve sample_runtime sample_aliases ''btc'' (Some ''testnet3'') = Inr (JString ''testnet3'')"
    by (simp add: network_eval text_eval)
  have 5: "resolve sample_runtime sample_aliases ''btc'' (Some ''livenet'') = Inr (JString ''livenet'')"
    by (simp add: network_eval text_eval)
  have 6: "resolve sample_runtime sample_aliases ''constructor'' (Some ''length'') = Inr (JOther (Number 1))"
    by (simp add: network_eval text_eval)
  have 7: "resolve sample_runtime sample_aliases ''constructor'' (Some ''1'') = Inr (JString ''1'')"
    by (simp add: network_eval text_eval)
  have 8: "resolve sample_runtime sample_aliases ''btc'' (Some []) = Inr JNull"
    by (simp add: resolve_def)
  have e1: "js_equals sample_runtime (JString ''testnet3'') (JString ''regtest'') = Inr False"
    and e2: "js_equals sample_runtime (JString ''testnet3'') (JString ''testnet3'') = Inr True"
    and e3: "js_equals sample_runtime (JString ''livenet'') (JString ''regtest'') = Inr False"
    and e4: "js_equals sample_runtime (JOther (Number 1)) (JString ''1'') = Inr True"
    and e5: "js_equals sample_runtime JNull JNull = Inr True"
    and e6: "js_equals sample_runtime JNull (JString ''testnet3'') = Inr False"
    by (simp_all add: sample_runtime_def decimal_def is_digit_def code_unit_def)
  note c = compareNetworks_characterised [THEN conjunct1, rule_format]
  show ?thesis
    using c [OF 1 2 e1, of True] c [OF 1 2 e1, of False] c [OF 3 4 e2, of False]
      c [OF 5 2 e3, of True] c [OF 6 7 e4, of False] c [OF 8 8 e5, of False]
      c [OF 8 1 e6, of False] c [OF 8 1 e6, of True]
    by (simp add: getNetworkType_def)
qed

text \<open>
  Claim C6 as stated takes the network types of the two names: \<open>MAINNET\<close> and \<open>testnet\<close>
  both have the type \<open>testnet\<close>, yet they do not compare true with \<open>allowRegtest\<close>
  set, because \<open>MAINNET\<close> resolves to \<open>mainnet\<close>.
\<close>

theorem compareNetworks_given_names_counterexample:
  "compareNetworks True sample_runtime sample_aliases (Some ''MAINNET'') (Some ''testnet'')
     ''btc'' = Inr False
   \<and> getNetworkType (JString ''MAINNET'' :: sample_other js_value) \<in> {''testnet'', ''regtest''}
   \<and> getNetworkType (JString ''testnet'' :: sample_other js_value) \<in> {''testnet'', ''regtest''}"
  by (simp add: network_eval text_eval)

text \<open>
  Claim C8, as amended. For every chain and network string, \<open>getNetworkName\<close> reads the
  property named by the string as it is given (it does not lowercase it) from
  \<open>NETWORK_ALIASES[chain]\<close>, own or inherited, and returns the value read when
  \<open>NETWORK_ALIASES[chain]\<close> and that value are both truthy: the configured name for a
  configured alias, and whatever an inherited key such as \<open>constructor\<close> holds.
  Otherwise it returns the string unchanged. A read that throws is not caught. The
  lowercasing is done by \<open>compareNetworks\<close> before the call.
\<close>

theorem getNetworkName_lookup:
  "(\<forall>e. get_property R T chain = Inl e \<longrightarrow> getNetworkName R T chain network = Inl e)
   \<and> (\<forall>aliases. get_property R T chain = Inr aliases \<longrightarrow> \<not> js_truthy R aliases \<longrightarrow>
         getNetworkName R T chain network = Inr (JString network))
   \<and> (\<forall>aliases e. get_property R T chain = Inr aliases \<longrightarrow> js_truthy R aliases \<longrightarrow>
         get_property R aliases network = Inl e \<longrightarrow>
         getNetworkName R T chain network = Inl e)
   \<and> (\<forall>aliases name. get_property R T chain = Inr aliases \<longrightarrow> js_truthy R aliases \<longrightarrow>
         get_property R aliases network = Inr name \<longrightarrow>
         getNetworkName R T chain network =
           Inr (if js_truthy R name then name else JString network))
   \<and> resolve R T chain (Some network) =
       (if network \<noteq> [] then getNetworkName R T chain (toLowerCase network) else Inr JNull)"
  by (simp add: getNetworkName_def resolve_def)

text \<open>
  With \<open>sample_aliases\<close>: an alias that is present, for two chains; a name without an
  alias; a chain without aliases; the inherited key \<open>constructor\<close>, which yields the
  function \<open>Object\<close>; and a table that is \<open>undefined\<close>, where the read throws.
\<close>

theorem getNetworkName_lookup_witness:
  "getNetworkName sample_runtime sample_aliases ''btc'' ''testnet'' = Inr (JString ''testnet3'')
   \<and> getNetworkName sample_runtime sample_aliases ''eth'' ''testnet'' = Inr (JString ''sepolia'')
   \<and> getNetworkName sample_runtime sample_aliases ''btc'' ''regtest'' = Inr (JString ''regtest'')
   \<and> getNetworkName sample_runtime sample_aliases ''doge'' ''testnet'' = Inr (JString ''testnet'')
   \<and> getNetworkName sample_runtime sample_aliases ''btc'' ''constructor''
       = Inr (JOther ObjectFunction)
   \<and> getNetworkName sample_runtime JUndefined ''btc'' ''testnet'' = Inl TypeError"
  using getNetworkName_lookup [of sample_runtime sample_aliases "''btc''" "''testnet''"]
    getNetworkName_lookup [of sample_runtime sample_aliases "''eth''" "''testnet''"]
    getNetworkName_lookup [of sample_runtime sample_aliases "''btc''" "''regtest''"]
    getNetworkName_lookup [of sample_runtime sample_aliases "''doge''" "''testnet''"]
    getNetworkName_lookup [of sample_runtime sample_aliases "''btc''" "''constructor''"]
    getNetworkName_lookup [of sample_runtime JUndefined "''btc''" "''testnet''"]
  by (simp add: sample_aliases_def sample_runtime_def inherited_def prototype_names_def)

text \<open>
  Claim C8 as stated looks up the lowercased string: \<open>TESTNET\<close> is returned unchanged,
  where its lowercase form has the alias \<open>testnet3\<close>.
\<close>

theorem getNetworkName_case_counterexample:
  "getNetworkName sample_runtime sample_aliases ''btc'' ''TESTNET'' = Inr (JString ''TESTNET'')
   \<and> getNetworkName sample_runtime sample_aliases ''btc'' (toLowerCase ''TESTNET'')
       = Inr (JString ''testnet3'')"
  by (simp add: network_eval text_eval)

end
